theory Spec2Isabelle
  imports Main "HOL-Library.Word"
begin

section \<open>JavaScript strings\<close>

text \<open>
  A JavaScript string is a sequence of UTF-16 code units. String literals of the source
  that are plain ASCII are written through \<open>js\<close>; the few characters beyond ASCII are
  given by their code units.
\<close>

type_synonym jsstring = "16 word list"

definition js :: "string \<Rightarrow> jsstring" where
  "js s = map of_char s"

text \<open>
  Truthiness of a value of type \<open>string | undefined\<close>: \<open>undefined\<close> and the empty
  string are falsy, every other string is truthy.
\<close>

fun truthy :: "jsstring option \<Rightarrow> bool" where
  "truthy None = False"
| "truthy (Some s) = (s \<noteq> [])"

section \<open>Session-aware outbound delivery (send-to-session)\<close>

text \<open>
  \<open>ReplyPayload\<close>: the source reads and writes the properties \<open>text\<close> and
  \<open>mediaUrl\<close>. The declaration of the type is not among the sources; its remaining
  optional properties are carried as one value \<open>other\<close>, \<open>None\<close> when none of them is set
  (as in the object literals \<open>{ text }\<close> and \<open>{ text, mediaUrl }\<close>). The field \<open>text\<close> is
  named \<open>text_p\<close> here.
\<close>

record 'x ReplyPayload =
  text_p :: "jsstring option"
  mediaUrl :: "jsstring option"
  other :: "'x option"

text \<open>The four properties of a \<open>SessionEntry\<close> that \<open>sendToSession\<close> reads.\<close>

record SessionEntry =
  lastChannel :: "jsstring option"
  lastTo :: "jsstring option"
  lastAccountId :: "jsstring option"
  lastThreadId :: "jsstring option"

text \<open>\<open>SendToSessionParams\<close>, fields prefixed with \<open>p_\<close>.\<close>

record 'cfg SendToSessionParams =
  p_sessionKey :: jsstring
  p_text :: jsstring
  p_agentId :: "jsstring option"
  p_cfg :: "'cfg option"
  p_mediaUrls :: "jsstring list option"
  p_bestEffort :: "bool option"

text \<open>The argument object of \<open>deliverOutboundPayloads\<close>, as \<open>sendToSession\<close> builds it.\<close>

record ('cfg, 'x) DeliverArgs =
  cfg :: 'cfg
  channel :: jsstring
  to :: jsstring
  accountId :: "jsstring option"
  payloads :: "'x ReplyPayload list"
  threadId :: "jsstring option"
  bestEffort :: "bool option"

text \<open>\<open>SendToSessionResult\<close>: \<open>{ ok: true, results }\<close> or \<open>{ ok: false, error }\<close>.\<close>

datatype 'r SendToSessionResult = Ok "'r list" | Err jsstring

text \<open>
  What a call of \<open>sendToSession\<close> can do, seen from its caller: the promise resolves
  with a result, or it rejects with a thrown value. Thrown values have the type \<open>'e\<close>.
\<close>

datatype ('a, 'e) outcome = Returned 'a | Thrown 'e

text \<open>
  The functions the module imports, and \<open>String\<close>. Each either returns (\<open>Inr\<close>) or
  throws a value (\<open>Inl\<close>). \<open>stringOf\<close> is \<open>String(err)\<close>, which the catch blocks apply to
  the value they caught: it returns a string, or throws when the value cannot be converted
  (an object without a usable \<open>toString\<close>). \<open>session_store c\<close> stands for the property
  read \<open>c.session?.store\<close>.
\<close>

record ('cfg, 'x, 'r, 'e) Collaborators =
  loadConfig :: "'e + 'cfg"
  session_store :: "'cfg \<Rightarrow> jsstring option"
  resolveStorePath :: "jsstring option \<Rightarrow> jsstring option \<Rightarrow> 'e + jsstring"
  loadSessionStore :: "jsstring \<Rightarrow> 'e + (jsstring \<rightharpoonup> SessionEntry)"
  isDeliverableMessageChannel :: "jsstring \<Rightarrow> 'e + bool"
  deliverOutboundPayloads :: "('cfg, 'x) DeliverArgs \<Rightarrow> 'e + 'r list"
  stringOf :: "'e \<Rightarrow> 'e + jsstring"

text \<open>
  The session store is the plain object read from the store file (the tests write the file
  as JSON); the map holds its own properties. The read \<open>store[sessionKey]\<close> finds an own
  entry, or else what \<open>Object.prototype\<close> has under that name: a function, or for
  \<open>__proto__\<close> the prototype itself. Such a value is truthy and has none of the four
  properties, so it is read as an entry with all four undefined.
\<close>

definition OBJECT_PROTOTYPE_KEYS :: "jsstring list" where
  "OBJECT_PROTOTYPE_KEYS =
     map js [''constructor'', ''__defineGetter__'', ''__defineSetter__'', ''hasOwnProperty'',
             ''__lookupGetter__'', ''__lookupSetter__'', ''isPrototypeOf'',
             ''propertyIsEnumerable'', ''toString'', ''valueOf'', ''__proto__'',
             ''toLocaleString'']"

definition getProperty :: "(jsstring \<rightharpoonup> SessionEntry) \<Rightarrow> jsstring \<Rightarrow> SessionEntry option" where
  "getProperty store key =
     (case store key of
        Some entry \<Rightarrow> Some entry
      | None \<Rightarrow>
          if key \<in> set OBJECT_PROTOTYPE_KEYS
          then Some \<lparr>lastChannel = None, lastTo = None, lastAccountId = None, lastThreadId = None\<rparr>
          else None)"

definition resolveOutboundChannel ::
  "(jsstring \<Rightarrow> 'e + bool) \<Rightarrow> jsstring option \<Rightarrow> 'e + jsstring option" where
  "resolveOutboundChannel isDeliverable ch =
     (case ch of
        None \<Rightarrow> Inr None
      | Some c \<Rightarrow>
          if c = [] then Inr None
          else (case isDeliverable c of
                  Inl e \<Rightarrow> Inl e
                | Inr deliverable \<Rightarrow> if \<not> deliverable then Inr None else Inr (Some c)))"

text \<open>
  The loop over \<open>mediaUrls\<close>: each URL pushes one payload; the first carries the text,
  the others the empty string.
\<close>

fun pushMediaPayloads ::
  "jsstring \<Rightarrow> jsstring list \<Rightarrow> 'x ReplyPayload list \<Rightarrow> 'x ReplyPayload list" where
  "pushMediaPayloads txt [] acc = acc"
| "pushMediaPayloads txt (url # urls) acc =
     pushMediaPayloads txt urls
       (acc @ [\<lparr>text_p = Some (if length acc = 0 then txt else []),
                mediaUrl = Some url, other = None\<rparr>])"

definition buildPayloads :: "jsstring \<Rightarrow> jsstring list option \<Rightarrow> 'x ReplyPayload list" where
  "buildPayloads txt urls =
     (case urls of
        None \<Rightarrow> [\<lparr>text_p = Some txt, mediaUrl = None, other = None\<rparr>]
      | Some us \<Rightarrow>
          if length us \<noteq> 0 then pushMediaPayloads txt us []
          else [\<lparr>text_p = Some txt, mediaUrl = None, other = None\<rparr>])"

text \<open>
  A catch block \<open>return { ok: false, error: `<prefix>${String(err)}` }\<close>: the error result,
  unless \<open>String(err)\<close> itself throws, which leaves the function.
\<close>

definition catchBlock ::
  "('e \<Rightarrow> 'e + jsstring) \<Rightarrow> jsstring \<Rightarrow> 'e \<Rightarrow> ('r SendToSessionResult, 'e) outcome" where
  "catchBlock str prefix err =
     (case str err of
        Inr s \<Rightarrow> Returned (Err (prefix @ s))
      | Inl e \<Rightarrow> Thrown e)"

text \<open>
  \<open>sendToSession\<close> returns what the caller sees together with the list of the calls of
  \<open>deliverOutboundPayloads\<close> it has made, in order. \<open>resolveStorePath\<close> and
  \<open>resolveOutboundChannel\<close> are called outside any \<open>try\<close>: what they throw leaves the
  function.
\<close>

definition sendToSession ::
  "('cfg, 'x, 'r, 'e) Collaborators \<Rightarrow> 'cfg SendToSessionParams
   \<Rightarrow> ('r SendToSessionResult, 'e) outcome \<times> ('cfg, 'x) DeliverArgs list" where
  "sendToSession env params =
     (case (case p_cfg params of Some c \<Rightarrow> Inr c | None \<Rightarrow> loadConfig env) of
        Inl err \<Rightarrow> (catchBlock (stringOf env) (js ''Failed to load config: '') err, [])
      | Inr c \<Rightarrow>
          (case resolveStorePath env (session_store env c) (p_agentId params) of
             Inl e \<Rightarrow> (Thrown e, [])
           | Inr storePath \<Rightarrow>
          (case loadSessionStore env storePath of
             Inl err \<Rightarrow>
               (catchBlock (stringOf env) (js ''Failed to load session store: '') err, [])
           | Inr store \<Rightarrow>
               (case getProperty store (p_sessionKey params) of
                  None \<Rightarrow>
                    (Returned (Err (js ''Session not found: '' @ p_sessionKey params)), [])
                | Some entry \<Rightarrow>
                    (case resolveOutboundChannel (isDeliverableMessageChannel env)
                            (lastChannel entry) of
                       Inl e \<Rightarrow> (Thrown e, [])
                     | Inr None \<Rightarrow>
                         (Returned (Err (js ''No channel found for session: ''
                                          @ p_sessionKey params)), [])
                     | Inr (Some ch) \<Rightarrow>
                         if \<not> truthy (lastTo entry) then
                           (Returned (Err (js ''No destination found for session: ''
                                            @ p_sessionKey params)), [])
                         else
                           let args = \<lparr>cfg = c, channel = ch, to = the (lastTo entry),
                                       accountId = lastAccountId entry,
                                       payloads = buildPayloads (p_text params)
                                                    (p_mediaUrls params),
                                       threadId = lastThreadId entry,
                                       bestEffort = p_bestEffort params\<rparr> in
                           (case deliverOutboundPayloads env args of
                              Inr results \<Rightarrow> (Returned (Ok results), [args])
                            | Inl err \<Rightarrow>
                                (catchBlock (stringOf env) (js ''Delivery failed: '') err,
                                 [args])))))))"

text \<open>
  The value of \<open>cfg\<close> after the first block of \<open>sendToSession\<close> (the override, or what
  \<open>loadConfig\<close> gives), the store path resolved with it, and the outcome of loading the
  store from that path.
\<close>

definition configOf ::
  "('cfg, 'x, 'r, 'e) Collaborators \<Rightarrow> 'cfg SendToSessionParams \<Rightarrow> 'e + 'cfg" where
  "configOf env params = (case p_cfg params of Some c \<Rightarrow> Inr c | None \<Rightarrow> loadConfig env)"

definition storePathOf ::
  "('cfg, 'x, 'r, 'e) Collaborators \<Rightarrow> 'cfg SendToSessionParams \<Rightarrow> 'cfg \<Rightarrow> 'e + jsstring" where
  "storePathOf env params c = resolveStorePath env (session_store env c) (p_agentId params)"

definition storeOf ::
  "('cfg, 'x, 'r, 'e) Collaborators \<Rightarrow> 'cfg SendToSessionParams \<Rightarrow> 'cfg
   \<Rightarrow> 'e + (jsstring \<rightharpoonup> SessionEntry)" where
  "storeOf env params c =
     (case storePathOf env params c of
        Inl e \<Rightarrow> Inl e
      | Inr storePath \<Rightarrow> loadSessionStore env storePath)"

section \<open>Reply utilities of the agent runner (agent-runner-utils)\<close>

subsection \<open>String primitives\<close>

text \<open>
  \<open>WhiteSpace\<close> and \<open>LineTerminator\<close> code units of ECMAScript, the characters that
  \<open>trim\<close> and \<open>trimEnd\<close> strip.
\<close>

definition isWhiteSpace :: "16 word \<Rightarrow> bool" where
  "isWhiteSpace c =
     (c \<in> set [0x0009, 0x000A, 0x000B, 0x000C, 0x000D, 0x0020, 0x00A0, 0x1680,
                  0x2028, 0x2029, 0x202F, 0x205F, 0x3000, 0xFEFF]
      \<or> (0x2000 \<le> c \<and> c \<le> 0x200A))"

definition trimEnd :: "jsstring \<Rightarrow> jsstring" where
  "trimEnd s = rev (dropWhile isWhiteSpace (rev s))"

definition trim :: "jsstring \<Rightarrow> jsstring" where
  "trim s = dropWhile isWhiteSpace (trimEnd s)"

text \<open>\<open>Array.prototype.join\<close> on an array of strings.\<close>

fun join :: "jsstring \<Rightarrow> jsstring list \<Rightarrow> jsstring" where
  "join sep [] = []"
| "join sep [x] = x"
| "join sep (x # y # ys) = x @ sep @ join sep (y # ys)"

subsection \<open>The socket-error pattern\<close>

definition BUN_FETCH_SOCKET_ERROR_RE :: jsstring where
  "BUN_FETCH_SOCKET_ERROR_RE = js ''socket connection was closed unexpectedly''"

text \<open>
  The pattern is a plain sequence of ASCII letters and spaces with the flag \<open>i\<close> and no
  flag \<open>u\<close> or \<open>g\<close>: \<open>test\<close> holds when the pattern occurs somewhere in the input, two
  code units matching when their canonical forms agree. The canonical form of an ASCII
  letter is its upper-case letter; a code unit from 128 on never has an ASCII canonical
  form, so it matches no character of this pattern and is left as it is here.
\<close>

definition canonicalize :: "16 word \<Rightarrow> 16 word" where
  "canonicalize c = (if 0x61 \<le> c \<and> c \<le> 0x7A then c - 0x20 else c)"

fun matchHere :: "jsstring \<Rightarrow> jsstring \<Rightarrow> bool" where
  "matchHere [] s = True"
| "matchHere (p # ps) [] = False"
| "matchHere (p # ps) (c # cs) = (canonicalize c = canonicalize p \<and> matchHere ps cs)"

fun regexTest :: "jsstring \<Rightarrow> jsstring \<Rightarrow> bool" where
  "regexTest pat [] = matchHere pat []"
| "regexTest pat (c # cs) = (matchHere pat (c # cs) \<or> regexTest pat cs)"

definition isBunFetchSocketError :: "jsstring option \<Rightarrow> bool" where
  "isBunFetchSocketError message =
     (truthy message \<and> regexTest BUN_FETCH_SOCKET_ERROR_RE (the message))"

text \<open>The first line of the message; it starts with U+26A0 U+FE0F (the warning sign).\<close>

definition LLM_CONNECTION_FAILED :: jsstring where
  "LLM_CONNECTION_FAILED = [0x26A0, 0xFE0F] @ js '' LLM connection failed.''"

definition formatBunFetchSocketError :: "jsstring \<Rightarrow> jsstring" where
  "formatBunFetchSocketError message =
     (let trimmed = trim message in
      join [0x0A]
        [LLM_CONNECTION_FAILED @
           js '' This could be due to server issues, network problems, or context length exceeded (e.g., with local LLMs like LM Studio). Original error:'',
         js ''```'',
         if trimmed \<noteq> [] then trimmed else js ''Unknown error'',
         js ''```''])"

subsection \<open>The usage line\<close>

text \<open>
  A JavaScript number is an IEEE double; the type \<open>'n\<close> stands for it, and what the
  source computes on numbers is taken from the record below, together with the helpers
  of \<open>utils/usage-format\<close> (not among the sources):
  \<open>le_zero x\<close> is \<open>x <= 0\<close>, \<open>lt_zero x\<close> is \<open>x < 0\<close>, \<open>percentOf u m\<close> is
  \<open>Math.round((u / m) * 100)\<close>, \<open>numberToString\<close> is the conversion of a template
  literal, \<open>toUpperCase\<close> is \<open>String.prototype.toUpperCase\<close>.
\<close>

record 'n NormalizedUsage =
  u_input :: "'n option"
  u_output :: "'n option"
  u_cacheRead :: "'n option"
  u_cacheWrite :: "'n option"

record 'n CostConfig =
  c_input :: 'n
  c_output :: 'n
  c_cacheRead :: 'n
  c_cacheWrite :: 'n

record 'n UsageFormat =
  formatTokenCount :: "'n \<Rightarrow> jsstring"
  estimateUsageCost :: "'n NormalizedUsage \<Rightarrow> 'n CostConfig option \<Rightarrow> 'n option"
  formatUsd :: "'n option \<Rightarrow> jsstring option"
  le_zero :: "'n \<Rightarrow> bool"
  lt_zero :: "'n \<Rightarrow> bool"
  percentOf :: "'n \<Rightarrow> 'n \<Rightarrow> 'n"
  numberToString :: "'n \<Rightarrow> jsstring"
  toUpperCase :: "jsstring \<Rightarrow> jsstring"

text \<open>\<open>ResponseUsageFlags\<close> (thinking.ts): three optional booleans.\<close>

record ResponseUsageFlags =
  f_tokens :: "bool option"
  f_cost :: "bool option"
  f_context :: "bool option"

text \<open>\<open>Boolean(x)\<close> for \<open>x\<close> of type \<open>boolean | undefined\<close>.\<close>

fun Boolean :: "bool option \<Rightarrow> bool" where
  "Boolean None = False"
| "Boolean (Some b) = b"

definition hasAnyUsageFlag :: "ResponseUsageFlags option \<Rightarrow> bool" where
  "hasAnyUsageFlag flags =
     (case flags of
        None \<Rightarrow> False
      | Some f \<Rightarrow> Boolean (f_tokens f) \<or> Boolean (f_cost f) \<or> Boolean (f_context f))"

definition formatContextPercent ::
  "'n UsageFormat \<Rightarrow> 'n option \<Rightarrow> 'n option \<Rightarrow> jsstring option" where
  "formatContextPercent uf usedTokens maxContext =
     (case usedTokens of
        None \<Rightarrow> None
      | Some used \<Rightarrow>
          (case maxContext of
             None \<Rightarrow> None
           | Some mx \<Rightarrow>
               if le_zero uf mx \<or> lt_zero uf used then None
               else
                 let percent = percentOf uf used mx;
                     tokensLabel = toUpperCase uf (formatTokenCount uf used)
                 in Some (tokensLabel @ js '' ('' @ numberToString uf percent @ js ''%)'')))"

record 'n UsageLineParams =
  usage :: "'n NormalizedUsage option"
  showCost :: bool
  costConfig :: "'n CostConfig option"
  flags :: "ResponseUsageFlags option"
  contextUsedTokens :: "'n option"
  contextMaxTokens :: "'n option"

text \<open>The separator between the parts of the line: space, U+00B7, space.\<close>

definition MIDDLE_DOT_SEP :: jsstring where
  "MIDDLE_DOT_SEP = [0x20, 0xB7, 0x20]"

text \<open>
  The three blocks that push onto the local array \<open>parts\<close>, each a function from the
  array before the block to the array after it.
\<close>

definition tokensPortion ::
  "'n UsageFormat \<Rightarrow> bool \<Rightarrow> 'n NormalizedUsage \<Rightarrow> jsstring list \<Rightarrow> jsstring list" where
  "tokensPortion uf showTokens u parts =
     (if showTokens then
        let inputLabel = (case u_input u of Some n \<Rightarrow> formatTokenCount uf n | None \<Rightarrow> js ''?'');
            outputLabel = (case u_output u of Some n \<Rightarrow> formatTokenCount uf n | None \<Rightarrow> js ''?'')
        in parts @ [js ''Usage: '' @ inputLabel @ js '' in / '' @ outputLabel @ js '' out'']
      else parts)"

definition costPortion ::
  "'n UsageFormat \<Rightarrow> bool \<Rightarrow> 'n NormalizedUsage \<Rightarrow> 'n CostConfig option
   \<Rightarrow> jsstring list \<Rightarrow> jsstring list" where
  "costPortion uf showCst u cc parts =
     (if showCst \<and> u_input u \<noteq> None \<and> u_output u \<noteq> None then
        let cost = estimateUsageCost uf
                     \<lparr>u_input = u_input u, u_output = u_output u,
                      u_cacheRead = u_cacheRead u, u_cacheWrite = u_cacheWrite u\<rparr> cc;
            costLabel = formatUsd uf cost
        in if truthy costLabel then
             (if length parts > 0 then parts @ [js ''est '' @ the costLabel]
              else parts @ [js ''Cost: est '' @ the costLabel])
           else parts
      else parts)"

definition contextPortion ::
  "'n UsageFormat \<Rightarrow> bool \<Rightarrow> 'n option \<Rightarrow> 'n option \<Rightarrow> jsstring list \<Rightarrow> jsstring list" where
  "contextPortion uf showContext used mx parts =
     (if showContext then
        let contextLabel = formatContextPercent uf used mx
        in if truthy contextLabel then
             (if length parts > 0 then parts @ [the contextLabel]
              else parts @ [js ''Context: '' @ the contextLabel])
           else parts
      else parts)"

definition formatResponseUsageLine ::
  "'n UsageFormat \<Rightarrow> 'n UsageLineParams \<Rightarrow> jsstring option" where
  "formatResponseUsageLine uf params =
     (case usage params of
        None \<Rightarrow> None
      | Some u \<Rightarrow>
          if u_input u = None \<and> u_output u = None then None
          else
            let showTokens = (case flags params of Some f \<Rightarrow> Boolean (f_tokens f) | None \<Rightarrow> True);
                showCst = (case flags params of Some f \<Rightarrow> Boolean (f_cost f)
                           | None \<Rightarrow> showCost params);
                showContext = (case flags params of Some f \<Rightarrow> Boolean (f_context f)
                               | None \<Rightarrow> False)
            in if \<not> showTokens \<and> \<not> showCst \<and> \<not> showContext then None
               else
                 let parts = contextPortion uf showContext
                               (contextUsedTokens params) (contextMaxTokens params)
                               (costPortion uf showCst u (costConfig params)
                                  (tokensPortion uf showTokens u []))
                 in if length parts = 0 then None
                    else if length parts = 1 then Some (parts ! 0)
                    else Some (parts ! 0 @ MIDDLE_DOT_SEP @ join MIDDLE_DOT_SEP (drop 1 parts)))"

subsection \<open>Appending the usage line\<close>

text \<open>
  The loop \<open>for (i = length - 1; i >= 0; i -= 1)\<close>: \<open>lastTextIndex ps n\<close> looks at the
  indices below \<open>n\<close>, from \<open>n - 1\<close> down, and returns the first whose payload has a truthy
  text; \<open>None\<close> is the index \<open>-1\<close>.
\<close>

fun lastTextIndex :: "'x ReplyPayload list \<Rightarrow> nat \<Rightarrow> nat option" where
  "lastTextIndex ps 0 = None"
| "lastTextIndex ps (Suc i) =
     (if truthy (text_p (ps ! i)) then Some i else lastTextIndex ps i)"

definition FOOTER_DELIMITER :: jsstring where
  "FOOTER_DELIMITER = [0x0A, 0x0A, 0x2D, 0x2D, 0x0A]"

definition appendUsageLine :: "'x ReplyPayload list \<Rightarrow> jsstring \<Rightarrow> 'x ReplyPayload list" where
  "appendUsageLine ps line =
     (case lastTextIndex ps (length ps) of
        None \<Rightarrow> ps @ [\<lparr>text_p = Some line, mediaUrl = None, other = None\<rparr>]
      | Some index \<Rightarrow>
          let existing = ps ! index;
              existingText = (case text_p existing of Some t \<Rightarrow> t | None \<Rightarrow> []);
              trimmed = trimEnd existingText;
              next = existing\<lparr>text_p := Some (trimmed @ FOOTER_DELIMITER @ line)\<rparr>
          in ps[index := next])"

subsection \<open>The usage step of the runner\<close>

text \<open>
  Modelled from the spec: the resolution of the usage flags in the reply runner
  (\<open>agent-runner.ts\<close> is not among the sources). Section 4.5, step 4: the session-level
  \<open>responseUsageFlags\<close> override the channel-level default, which overrides the global
  default; an absent source falls through to the next.
\<close>

definition resolveResponseUsageFlags ::
  "ResponseUsageFlags option \<Rightarrow> ResponseUsageFlags option \<Rightarrow> ResponseUsageFlags option
   \<Rightarrow> ResponseUsageFlags option" where
  "resolveResponseUsageFlags sessionFlags channelDefault globalDefault =
     (case sessionFlags of
        Some f \<Rightarrow> Some f
      | None \<Rightarrow> (case channelDefault of Some f \<Rightarrow> Some f | None \<Rightarrow> globalDefault))"

text \<open>
  Modelled from the spec: the usage annotation of the reply runner (\<open>agent-runner.ts\<close> is
  not among the sources). Section 4.5, step 4: if any flag is set, a usage line is
  computed and appended to the payloads; if no flag is set, or there is no line, the
  payloads pass through unchanged.
\<close>

definition annotateUsage ::
  "'n UsageFormat \<Rightarrow> ResponseUsageFlags option \<Rightarrow> ResponseUsageFlags option
   \<Rightarrow> ResponseUsageFlags option \<Rightarrow> 'n UsageLineParams
   \<Rightarrow> 'x ReplyPayload list \<Rightarrow> 'x ReplyPayload list" where
  "annotateUsage uf sessionFlags channelDefault globalDefault params ps =
     (let resolved = resolveResponseUsageFlags sessionFlags channelDefault globalDefault in
      if hasAnyUsageFlag resolved then
        (case formatResponseUsageLine uf (params\<lparr>flags := resolved\<rparr>) of
           None \<Rightarrow> ps
         | Some line \<Rightarrow> appendUsageLine ps line)
      else ps)"

subsection \<open>The fixtures of the test suite\<close>

text \<open>
  The delivery mock resolves to one result \<open>{ channel, messageId, chatId }\<close>; the store
  file holds the entries each test writes; only \<open>telegram\<close> is deliverable there. A thrown
  value is given by the string \<open>String\<close> makes of it.
\<close>

datatype OutboundDeliveryResult = DeliveryResult jsstring jsstring jsstring

definition testEnv ::
  "(jsstring \<rightharpoonup> SessionEntry)
   \<Rightarrow> (unit, unit, OutboundDeliveryResult, jsstring) Collaborators" where
  "testEnv st =
     \<lparr>loadConfig = Inr (),
      session_store = (\<lambda>_. Some (js ''/tmp/sessions.json'')),
      resolveStorePath =
        (\<lambda>s a. Inr (case s of Some p \<Rightarrow> p | None \<Rightarrow> js ''sessions.json'')),
      loadSessionStore = (\<lambda>p. Inr st),
      isDeliverableMessageChannel = (\<lambda>c. Inr (c = js ''telegram'')),
      deliverOutboundPayloads =
        (\<lambda>_. Inr [DeliveryResult (js ''telegram'') (js ''123'') (js ''456'')]),
      stringOf = Inr\<rparr>"

text \<open>
  Two environments in which something other than the three guarded calls throws:
  \<open>resolveStorePath\<close> throws; and \<open>loadConfig\<close> throws a value that \<open>String\<close> cannot
  convert.
\<close>

definition throwingPathEnv :: "(unit, unit, OutboundDeliveryResult, jsstring) Collaborators" where
  "throwingPathEnv =
     (testEnv Map.empty)
       \<lparr>resolveStorePath := (\<lambda>s a. Inl (js ''TypeError: store path''))\<rparr>"

definition unprintableErrorEnv ::
  "(unit, unit, OutboundDeliveryResult, jsstring) Collaborators" where
  "unprintableErrorEnv =
     (testEnv Map.empty)
       \<lparr>loadConfig := Inl (js ''[object without toString]''),
        stringOf := (\<lambda>e. Inl (js ''TypeError: Cannot convert object to primitive value''))\<rparr>"

definition testParams :: "jsstring \<Rightarrow> jsstring \<Rightarrow> unit SendToSessionParams" where
  "testParams k t =
     \<lparr>p_sessionKey = k, p_text = t, p_agentId = None, p_cfg = Some (),
      p_mediaUrls = None, p_bestEffort = None\<rparr>"

definition validEntry :: SessionEntry where
  "validEntry = \<lparr>lastChannel = Some (js ''telegram''), lastTo = Some (js ''456''),
                 lastAccountId = Some (js ''bot1''), lastThreadId = Some (js ''789'')\<rparr>"

definition webchatEntry :: SessionEntry where
  "webchatEntry = \<lparr>lastChannel = Some (js ''webchat''), lastTo = Some (js ''456''),
                   lastAccountId = None, lastThreadId = None\<rparr>"

definition noDestinationEntry :: SessionEntry where
  "noDestinationEntry = \<lparr>lastChannel = Some (js ''telegram''), lastTo = None,
                         lastAccountId = None, lastThreadId = None\<rparr>"

text \<open>
  A message as Bun raises it, with surrounding whitespace; payload lists with and without
  text; stand-ins for \<open>formatTokenCount\<close> and the cost helpers on natural numbers below
  100 (the usage of the footer test is 12 tokens in and 3 out). No fixture carries context
  counts, so \<open>percentOf\<close> is never applied: its value here is a placeholder, not a
  model of \<open>Math.round\<close>.
\<close>

definition bunErrorMessage :: jsstring where
  "bunErrorMessage = js ''  Error: The Socket connection was closed unexpectedly. '' @ [0x0A]"

definition textPayload :: "jsstring \<Rightarrow> unit ReplyPayload" where
  "textPayload t = \<lparr>text_p = Some t, mediaUrl = None, other = None\<rparr>"

definition mediaPayload :: "jsstring \<Rightarrow> unit ReplyPayload" where
  "mediaPayload u = \<lparr>text_p = None, mediaUrl = Some u, other = None\<rparr>"

definition mixedPayloads :: "unit ReplyPayload list" where
  "mixedPayloads = [textPayload (js ''first''), textPayload (js ''  ok  ''),
                    mediaPayload (js ''https://example.com/a.png''), textPayload []]"

definition twoDigits :: "nat \<Rightarrow> jsstring" where
  "twoDigits n = (if n < 10 then [0x30 + of_nat n]
                  else [0x30 + of_nat (n div 10), 0x30 + of_nat (n mod 10)])"

definition stubUsageFormat :: "nat UsageFormat" where
  "stubUsageFormat =
     \<lparr>formatTokenCount = twoDigits,
      estimateUsageCost = (\<lambda>u c. None),
      formatUsd = (\<lambda>c. None),
      le_zero = (\<lambda>n. n = 0),
      lt_zero = (\<lambda>n. False),
      percentOf = (\<lambda>u m. 0),
      numberToString = twoDigits,
      toUpperCase = (\<lambda>s. s)\<rparr>"

definition testUsage :: "nat NormalizedUsage" where
  "testUsage = \<lparr>u_input = Some 12, u_output = Some 3, u_cacheRead = None, u_cacheWrite = None\<rparr>"

definition testLineParams :: "ResponseUsageFlags option \<Rightarrow> nat UsageLineParams" where
  "testLineParams fl =
     \<lparr>usage = Some testUsage, showCost = False, costConfig = None, flags = fl,
      contextUsedTokens = None, contextMaxTokens = None\<rparr>"

definition tokensOnly :: ResponseUsageFlags where
  "tokensOnly = \<lparr>f_tokens = Some True, f_cost = None, f_context = None\<rparr>"

definition noFlags :: ResponseUsageFlags where
  "noFlags = \<lparr>f_tokens = None, f_cost = None, f_context = None\<rparr>"

section \<open>Properties of sendToSession\<close>

lemma catchBlock_cases:
  "(\<exists>e. catchBlock str prefix err = Returned (Err e))
   \<or> (\<exists>e. catchBlock str prefix err = Thrown e \<and> str err = Inl e)"
  by (cases "str err") (simp_all add: catchBlock_def)

lemma resolveOutboundChannel_throws:
  "resolveOutboundChannel isDeliverable ch = Inl e \<Longrightarrow> \<exists>c. isDeliverable c = Inl e"
  by (auto simp add: resolveOutboundChannel_def split: option.splits if_splits sum.splits)

lemma sendToSession_outcome:
  "(\<exists>rs. fst (sendToSession env params) = Returned (Ok rs))
   \<or> (\<exists>msg. fst (sendToSession env params) = Returned (Err msg))
   \<or> (\<exists>e. fst (sendToSession env params) = Thrown e
          \<and> ((\<exists>s a. resolveStorePath env s a = Inl e)
               \<or> (\<exists>ch. isDeliverableMessageChannel env ch = Inl e)
               \<or> (\<exists>err. stringOf env err = Inl e)))"
proof -
  have cb: "\<And>prefix err.
      (\<exists>msg. catchBlock (stringOf env) prefix err = Returned (Err msg))
      \<or> (\<exists>e. catchBlock (stringOf env) prefix err = Thrown e \<and> (\<exists>err. stringOf env err = Inl e))"
    using catchBlock_cases [of "stringOf env"] by blast
  show ?thesis
  proof (cases "configOf env params")
    case (Inl err)
    with cb [of "js ''Failed to load config: ''" err] show ?thesis
      by (auto simp add: sendToSession_def configOf_def)
  next
    case c: (Inr c)
    show ?thesis
    proof (cases "resolveStorePath env (session_store env c) (p_agentId params)")
      case (Inl e)
      with c have "fst (sendToSession env params) = Thrown e"
        by (simp add: sendToSession_def configOf_def)
      with Inl show ?thesis by blast
    next
      case p: (Inr storePath)
      show ?thesis
      proof (cases "loadSessionStore env storePath")
        case (Inl err)
        with c p cb [of "js ''Failed to load session store: ''" err] show ?thesis
          by (auto simp add: sendToSession_def configOf_def)
      next
        case st: (Inr store)
        show ?thesis
        proof (cases "getProperty store (p_sessionKey params)")
          case None
          with c p st show ?thesis by (simp add: sendToSession_def configOf_def)
        next
          case en: (Some entry)
          show ?thesis
          proof (cases "resolveOutboundChannel (isDeliverableMessageChannel env) (lastChannel entry)")
            case (Inl e)
            with c p st en have "fst (sendToSession env params) = Thrown e"
              by (simp add: sendToSession_def configOf_def)
            moreover from Inl have "\<exists>ch. isDeliverableMessageChannel env ch = Inl e"
              by (rule resolveOutboundChannel_throws)
            ultimately show ?thesis by blast
          next
            case ch: (Inr chopt)
            show ?thesis
            proof (cases chopt)
              case None
              with c p st en ch show ?thesis by (simp add: sendToSession_def configOf_def)
            next
              case (Some chan)
              show ?thesis
              proof (cases "truthy (lastTo entry)")
                case False
                with c p st en ch Some show ?thesis
                  by (simp add: sendToSession_def configOf_def)
              next
                case True
                let ?args = "\<lparr>cfg = c, channel = chan, to = the (lastTo entry),
                               accountId = lastAccountId entry,
                               payloads = buildPayloads (p_text params) (p_mediaUrls params),
                               threadId = lastThreadId entry,
                               bestEffort = p_bestEffort params\<rparr>"
                show ?thesis
                proof (cases "deliverOutboundPayloads env ?args")
                  case (Inl err)
                  with c p st en ch Some True cb [of "js ''Delivery failed: ''" err]
                  show ?thesis
                    by (auto simp add: sendToSession_def configOf_def Let_def)
                next
                  case (Inr results)
                  with c p st en ch Some True show ?thesis
                    by (simp add: sendToSession_def configOf_def Let_def)
                qed
              qed
            qed
          qed
        qed
      qed
    qed
  qed
qed

lemma sendToSession_delivery_failed:
  assumes "snd (sendToSession env params) = [args]"
    and "deliverOutboundPayloads env args = Inl err"
  shows "fst (sendToSession env params)
           = catchBlock (stringOf env) (js ''Delivery failed: '') err"
  using assms
  by (auto simp add: sendToSession_def Let_def
      split: sum.splits option.splits if_splits)

text \<open>
  C1, as the code has it. \<open>sendToSession\<close> returns \<open>{ ok: true, results }\<close> or
  \<open>{ ok: false, error }\<close>, or it rejects with a value thrown by \<open>resolveStorePath\<close>, by
  \<open>isDeliverableMessageChannel\<close> or by \<open>String(err)\<close> in a catch block; nothing else leaves
  the function. A failure of the configuration load, of the session-store load or of the
  delivery is caught and becomes the error result with the matching prefix and
  \<open>String(err)\<close>.
\<close>

theorem sendToSession_rejects_only_from_helpers:
  fixes env :: "('cfg, 'x, 'r, 'e) Collaborators" and params :: "'cfg SendToSessionParams"
  shows "((\<exists>rs. fst (sendToSession env params) = Returned (Ok rs))
          \<or> (\<exists>msg. fst (sendToSession env params) = Returned (Err msg))
          \<or> (\<exists>e. fst (sendToSession env params) = Thrown e
                 \<and> ((\<exists>s a. resolveStorePath env s a = Inl e)
                      \<or> (\<exists>ch. isDeliverableMessageChannel env ch = Inl e)
                      \<or> (\<exists>err. stringOf env err = Inl e))))
       \<and> (configOf env params = Inl err1 \<and> stringOf env err1 = Inr s1 \<longrightarrow>
            sendToSession env params
              = (Returned (Err (js ''Failed to load config: '' @ s1)), []))
       \<and> (configOf env params = Inr c \<and> storePathOf env params c = Inr path
            \<and> loadSessionStore env path = Inl err2 \<and> stringOf env err2 = Inr s2 \<longrightarrow>
            sendToSession env params
              = (Returned (Err (js ''Failed to load session store: '' @ s2)), []))
       \<and> (snd (sendToSession env params) = [args]
            \<and> deliverOutboundPayloads env args = Inl err3 \<and> stringOf env err3 = Inr s3 \<longrightarrow>
            fst (sendToSession env params)
              = Returned (Err (js ''Delivery failed: '' @ s3)))"
proof (intro conjI impI)
  show "(\<exists>rs. fst (sendToSession env params) = Returned (Ok rs))
          \<or> (\<exists>msg. fst (sendToSession env params) = Returned (Err msg))
          \<or> (\<exists>e. fst (sendToSession env params) = Thrown e
                 \<and> ((\<exists>s a. resolveStorePath env s a = Inl e)
                      \<or> (\<exists>ch. isDeliverableMessageChannel env ch = Inl e)
                      \<or> (\<exists>err. stringOf env err = Inl e)))"
    by (rule sendToSession_outcome)
next
  assume "configOf env params = Inl err1 \<and> stringOf env err1 = Inr s1"
  then show "sendToSession env params
              = (Returned (Err (js ''Failed to load config: '' @ s1)), [])"
    by (simp add: sendToSession_def configOf_def catchBlock_def)
next
  assume "configOf env params = Inr c \<and> storePathOf env params c = Inr path
            \<and> loadSessionStore env path = Inl err2 \<and> stringOf env err2 = Inr s2"
  then show "sendToSession env params
              = (Returned (Err (js ''Failed to load session store: '' @ s2)), [])"
    by (simp add: sendToSession_def configOf_def storePathOf_def catchBlock_def)
next
  assume a: "snd (sendToSession env params) = [args]
            \<and> deliverOutboundPayloads env args = Inl err3 \<and> stringOf env err3 = Inr s3"
  then have "fst (sendToSession env params)
           = catchBlock (stringOf env) (js ''Delivery failed: '') err3"
    using sendToSession_delivery_failed [of env params args err3] by simp
  with a show "fst (sendToSession env params)
              = Returned (Err (js ''Delivery failed: '' @ s3))"
    by (simp add: catchBlock_def)
qed

theorem sendToSession_rejects_only_from_helpers_witness:
  "sendToSession ((testEnv Map.empty)\<lparr>loadConfig := Inl (js ''Error: bad config'')\<rparr>)
       ((testParams (js ''telegram:123'') (js ''Hello''))\<lparr>p_cfg := None\<rparr>)
     = (Returned (Err (js ''Failed to load config: Error: bad config'')), [])
   \<and> sendToSession ((testEnv Map.empty)\<lparr>loadSessionStore := (\<lambda>_. Inl (js ''Error: ENOENT''))\<rparr>)
       (testParams (js ''telegram:123'') (js ''Hello''))
     = (Returned (Err (js ''Failed to load session store: Error: ENOENT'')), [])
   \<and> fst (sendToSession
         ((testEnv [js ''telegram:123'' \<mapsto> validEntry])
            \<lparr>deliverOutboundPayloads := (\<lambda>_. Inl (js ''Error: network down''))\<rparr>)
         (testParams (js ''telegram:123'') (js ''Hello'')))
     = Returned (Err (js ''Delivery failed: Error: network down''))"
proof (intro conjI)
  let ?e1 = "(testEnv Map.empty)\<lparr>loadConfig := Inl (js ''Error: bad config'')\<rparr>"
  let ?p1 = "(testParams (js ''telegram:123'') (js ''Hello''))\<lparr>p_cfg := None\<rparr>"
  have "configOf ?e1 ?p1 = Inl (js ''Error: bad config'')
        \<and> stringOf ?e1 (js ''Error: bad config'') = Inr (js ''Error: bad config'')"
    by (simp add: configOf_def testEnv_def testParams_def)
  with sendToSession_rejects_only_from_helpers
         [of ?e1 ?p1 "js ''Error: bad config''" "js ''Error: bad config''"]
  show "sendToSession ?e1 ?p1
     = (Returned (Err (js ''Failed to load config: Error: bad config'')), [])"
    by (simp add: js_def)
next
  let ?e2 = "(testEnv Map.empty)\<lparr>loadSessionStore := (\<lambda>_. Inl (js ''Error: ENOENT''))\<rparr>"
  let ?p2 = "testParams (js ''telegram:123'') (js ''Hello'')"
  have "configOf ?e2 ?p2 = Inr () \<and> storePathOf ?e2 ?p2 () = Inr (js ''/tmp/sessions.json'')
        \<and> loadSessionStore ?e2 (js ''/tmp/sessions.json'') = Inl (js ''Error: ENOENT'')
        \<and> stringOf ?e2 (js ''Error: ENOENT'') = Inr (js ''Error: ENOENT'')"
    by (simp add: configOf_def storePathOf_def testEnv_def testParams_def)
  with sendToSession_rejects_only_from_helpers
         [of ?e2 ?p2 _ _ "()" "js ''/tmp/sessions.json''" "js ''Error: ENOENT''"
             "js ''Error: ENOENT''"]
  show "sendToSession ?e2 ?p2
     = (Returned (Err (js ''Failed to load session store: Error: ENOENT'')), [])"
    by (simp add: js_def)
next
  let ?e3 = "(testEnv [js ''telegram:123'' \<mapsto> validEntry])
            \<lparr>deliverOutboundPayloads := (\<lambda>_. Inl (js ''Error: network down''))\<rparr>"
  let ?p3 = "testParams (js ''telegram:123'') (js ''Hello'')"
  let ?args = "\<lparr>cfg = (), channel = js ''telegram'', to = js ''456'',
                accountId = Some (js ''bot1''),
                payloads = [\<lparr>text_p = Some (js ''Hello''), mediaUrl = None, other = None\<rparr>],
                threadId = Some (js ''789''), bestEffort = None\<rparr>"
  have "snd (sendToSession ?e3 ?p3) = [?args]"
    by (simp add: sendToSession_def testEnv_def testParams_def validEntry_def getProperty_def
        resolveOutboundChannel_def buildPayloads_def catchBlock_def js_def)
  moreover have "deliverOutboundPayloads ?e3 ?args = Inl (js ''Error: network down'')
        \<and> stringOf ?e3 (js ''Error: network down'') = Inr (js ''Error: network down'')"
    by (simp add: testEnv_def)
  ultimately show "fst (sendToSession ?e3 ?p3)
     = Returned (Err (js ''Delivery failed: Error: network down''))"
    using sendToSession_rejects_only_from_helpers
            [of ?e3 ?p3 _ _ _ _ _ _ ?args "js ''Error: network down''"
                "js ''Error: network down''"]
    by (simp add: js_def)
qed

text \<open>
  C1 as the claim states it, that no input makes \<open>sendToSession\<close> throw, fails: when
  \<open>resolveStorePath\<close> throws, nothing catches it; and when \<open>loadConfig\<close> throws a value
  that \<open>String\<close> cannot convert, the catch block itself throws.
\<close>

theorem sendToSession_can_reject:
  "fst (sendToSession throwingPathEnv (testParams (js ''telegram:123'') (js ''Hello'')))
     = Thrown (js ''TypeError: store path'')
   \<and> fst (sendToSession unprintableErrorEnv
            ((testParams (js ''telegram:123'') (js ''Hello''))\<lparr>p_cfg := None\<rparr>))
     = Thrown (js ''TypeError: Cannot convert object to primitive value'')"
  by (simp add: sendToSession_def throwingPathEnv_def unprintableErrorEnv_def testEnv_def
      testParams_def catchBlock_def)

text \<open>
  The lookup of the session key. For a key that is neither an own property of the store
  nor a property name of \<open>Object.prototype\<close> the result is
  \<open>Session not found: <key>\<close>, with no delivery.
\<close>

lemma sendToSession_unknown_key:
  assumes "configOf env params = Inr c"
    and "storeOf env params c = Inr store"
    and "store (p_sessionKey params) = None"
    and "p_sessionKey params \<notin> set OBJECT_PROTOTYPE_KEYS"
  shows "sendToSession env params
           = (Returned (Err (js ''Session not found: '' @ p_sessionKey params)), [])"
proof -
  from assms(2) obtain path where
    "resolveStorePath env (session_store env c) (p_agentId params) = Inr path"
    "loadSessionStore env path = Inr store"
    by (auto simp add: storeOf_def storePathOf_def split: sum.splits)
  with assms(1,3,4) show ?thesis
    by (simp add: sendToSession_def configOf_def getProperty_def)
qed

text \<open>
  C2 at the key \<open>toString\<close> on an empty store. The store has no entry for the key, yet
  the read finds the function inherited from \<open>Object.prototype\<close>, the test \<open>!entry\<close>
  passes it on, and the answer is \<open>No channel found for session: toString\<close> where the
  claim has \<open>Session not found: toString\<close>.
\<close>

theorem sendToSession_inherited_key:
  "sendToSession (testEnv Map.empty) (testParams (js ''toString'') (js ''Hello''))
     = (Returned (Err (js ''No channel found for session: toString'')), [])"
  by (simp add: sendToSession_def testEnv_def testParams_def getProperty_def
      OBJECT_PROTOTYPE_KEYS_def resolveOutboundChannel_def js_def)

lemma sendToSession_own_entry:
  assumes "configOf env params = Inr c"
    and "storeOf env params c = Inr store"
    and "store (p_sessionKey params) = Some entry"
  shows "sendToSession env params =
     (case resolveOutboundChannel (isDeliverableMessageChannel env) (lastChannel entry) of
        Inl e \<Rightarrow> (Thrown e, [])
      | Inr None \<Rightarrow>
          (Returned (Err (js ''No channel found for session: '' @ p_sessionKey params)), [])
      | Inr (Some ch) \<Rightarrow>
          if \<not> truthy (lastTo entry) then
            (Returned (Err (js ''No destination found for session: ''
                             @ p_sessionKey params)), [])
          else
            let args = \<lparr>cfg = c, channel = ch, to = the (lastTo entry),
                        accountId = lastAccountId entry,
                        payloads = buildPayloads (p_text params) (p_mediaUrls params),
                        threadId = lastThreadId entry,
                        bestEffort = p_bestEffort params\<rparr> in
            (case deliverOutboundPayloads env args of
               Inr results \<Rightarrow> (Returned (Ok results), [args])
             | Inl err \<Rightarrow>
                 (catchBlock (stringOf env) (js ''Delivery failed: '') err, [args])))"
proof -
  from assms(2) obtain path where
    "resolveStorePath env (session_store env c) (p_agentId params) = Inr path"
    "loadSessionStore env path = Inr store"
    by (auto simp add: storeOf_def storePathOf_def split: sum.splits)
  with assms(1,3) show ?thesis
    by (simp add: sendToSession_def configOf_def getProperty_def)
qed

text \<open>
  C3. When the entry has no \<open>lastChannel\<close>, or one that is not a deliverable message
  channel, the result is the error \<open>No channel found for session: <key>\<close> and no delivery
  is attempted.
\<close>

theorem sendToSession_no_channel:
  assumes "configOf env params = Inr c"
    and "storeOf env params c = Inr store"
    and "store (p_sessionKey params) = Some entry"
    and "lastChannel entry = None
         \<or> (\<exists>ch. lastChannel entry = Some ch
                \<and> isDeliverableMessageChannel env ch = Inr False)"
  shows "sendToSession env params
           = (Returned (Err (js ''No channel found for session: '' @ p_sessionKey params)), [])"
proof -
  from assms(4)
  have "resolveOutboundChannel (isDeliverableMessageChannel env) (lastChannel entry) = Inr None"
    by (auto simp add: resolveOutboundChannel_def)
  with sendToSession_own_entry [OF assms(1-3)] show ?thesis by simp
qed

theorem sendToSession_no_channel_witness:
  "sendToSession (testEnv [js ''webchat:123'' \<mapsto> webchatEntry])
       (testParams (js ''webchat:123'') (js ''Hello''))
     = (Returned (Err (js ''No channel found for session: webchat:123'')), [])"
proof -
  let ?st = "[js ''webchat:123'' \<mapsto> webchatEntry]"
  let ?env = "testEnv ?st"
  let ?p = "testParams (js ''webchat:123'') (js ''Hello'')"
  have "configOf ?env ?p = Inr ()"
    by (simp add: configOf_def testParams_def)
  moreover have "storeOf ?env ?p () = Inr ?st"
    by (simp add: storeOf_def storePathOf_def testEnv_def)
  moreover have "?st (p_sessionKey ?p) = Some webchatEntry"
    by (simp add: testParams_def)
  moreover have "lastChannel webchatEntry = None
         \<or> (\<exists>ch. lastChannel webchatEntry = Some ch
                \<and> isDeliverableMessageChannel ?env ch = Inr False)"
    by (simp add: webchatEntry_def testEnv_def js_def)
  ultimately have "sendToSession ?env ?p
      = (Returned (Err (js ''No channel found for session: '' @ p_sessionKey ?p)), [])"
    by (rule sendToSession_no_channel)
  then show ?thesis by (simp add: testParams_def js_def)
qed

text \<open>
  C4. For an entry with a deliverable \<open>lastChannel\<close>, a non-empty \<open>lastTo\<close>, a
  \<open>lastAccountId\<close> and a \<open>lastThreadId\<close>, and a send without media URLs, delivery is
  invoked exactly once, with the entry's channel, destination, account and thread and the
  single payload \<open>{ text }\<close>; when the delivery succeeds the call returns its results.
\<close>

theorem sendToSession_delivers:
  assumes "configOf env params = Inr c"
    and "storeOf env params c = Inr store"
    and "store (p_sessionKey params) = Some entry"
    and "lastChannel entry = Some ch" and "ch \<noteq> []"
    and "isDeliverableMessageChannel env ch = Inr True"
    and "lastTo entry = Some dest" and "dest \<noteq> []"
    and "lastAccountId entry = Some acct"
    and "lastThreadId entry = Some thr"
    and "p_mediaUrls params = None \<or> p_mediaUrls params = Some []"
    and "args = \<lparr>cfg = c, channel = ch, to = dest, accountId = Some acct,
                  payloads = [\<lparr>text_p = Some (p_text params), mediaUrl = None, other = None\<rparr>],
                  threadId = Some thr, bestEffort = p_bestEffort params\<rparr>"
  shows "snd (sendToSession env params) = [args]
       \<and> (\<forall>results. deliverOutboundPayloads env args = Inr results \<longrightarrow>
            fst (sendToSession env params) = Returned (Ok results))"
proof -
  from assms(4-6)
  have "resolveOutboundChannel (isDeliverableMessageChannel env) (lastChannel entry)
          = Inr (Some ch)"
    by (simp add: resolveOutboundChannel_def)
  moreover from assms(11) have "buildPayloads (p_text params) (p_mediaUrls params)
      = [\<lparr>text_p = Some (p_text params), mediaUrl = None, other = None\<rparr>]"
    by (auto simp add: buildPayloads_def)
  ultimately show ?thesis
    using sendToSession_own_entry [OF assms(1-3)] assms(7-10,12)
    by (auto simp add: Let_def split: sum.splits)
qed

theorem sendToSession_delivers_witness:
  "sendToSession (testEnv [js ''telegram:123'' \<mapsto> validEntry])
       (testParams (js ''telegram:123'') (js ''Hello world''))
     = (Returned (Ok [DeliveryResult (js ''telegram'') (js ''123'') (js ''456'')]),
        [\<lparr>cfg = (), channel = js ''telegram'', to = js ''456'', accountId = Some (js ''bot1''),
          payloads = [\<lparr>text_p = Some (js ''Hello world''), mediaUrl = None, other = None\<rparr>],
          threadId = Some (js ''789''), bestEffort = None\<rparr>])"
proof -
  let ?st = "[js ''telegram:123'' \<mapsto> validEntry]"
  let ?env = "testEnv ?st"
  let ?p = "testParams (js ''telegram:123'') (js ''Hello world'')"
  let ?args = "\<lparr>cfg = (), channel = js ''telegram'', to = js ''456'',
                accountId = Some (js ''bot1''),
                payloads = [\<lparr>text_p = Some (p_text ?p), mediaUrl = None, other = None\<rparr>],
                threadId = Some (js ''789''), bestEffort = p_bestEffort ?p\<rparr>"
  have "configOf ?env ?p = Inr ()"
    by (simp add: configOf_def testParams_def)
  moreover have "storeOf ?env ?p () = Inr ?st"
    by (simp add: storeOf_def storePathOf_def testEnv_def)
  moreover have "?st (p_sessionKey ?p) = Some validEntry"
    by (simp add: testParams_def)
  moreover have "lastChannel validEntry = Some (js ''telegram'')"
    and "js ''telegram'' \<noteq> []"
    and "isDeliverableMessageChannel ?env (js ''telegram'') = Inr True"
    and "lastTo validEntry = Some (js ''456'')" and "js ''456'' \<noteq> []"
    and "lastAccountId validEntry = Some (js ''bot1'')"
    and "lastThreadId validEntry = Some (js ''789'')"
    and "p_mediaUrls ?p = None \<or> p_mediaUrls ?p = Some []"
    by (simp_all add: validEntry_def testEnv_def testParams_def js_def)
  ultimately have "snd (sendToSession ?env ?p) = [?args]
       \<and> (\<forall>results. deliverOutboundPayloads ?env ?args = Inr results \<longrightarrow>
            fst (sendToSession ?env ?p) = Returned (Ok results))"
    by (rule sendToSession_delivers) (rule refl)
  moreover have "deliverOutboundPayloads ?env ?args
      = Inr [DeliveryResult (js ''telegram'') (js ''123'') (js ''456'')]"
    by (simp add: testEnv_def)
  ultimately have "snd (sendToSession ?env ?p) = [?args]
       \<and> fst (sendToSession ?env ?p)
           = Returned (Ok [DeliveryResult (js ''telegram'') (js ''123'') (js ''456'')])"
    by blast
  then show ?thesis by (simp add: prod_eq_iff testParams_def)
qed

text \<open>
  C10. When \<open>lastChannel\<close> resolves to a deliverable channel and \<open>lastTo\<close> is missing or
  empty, the result is the error \<open>No destination found for session: <key>\<close> and no
  delivery is attempted.
\<close>

theorem sendToSession_no_destination:
  assumes "configOf env params = Inr c"
    and "storeOf env params c = Inr store"
    and "store (p_sessionKey params) = Some entry"
    and "resolveOutboundChannel (isDeliverableMessageChannel env) (lastChannel entry)
           = Inr (Some ch)"
    and "lastTo entry = None \<or> lastTo entry = Some []"
  shows "sendToSession env params
           = (Returned (Err (js ''No destination found for session: '' @ p_sessionKey params)), [])"
  using sendToSession_own_entry [OF assms(1-3)] assms(4,5) by auto

theorem sendToSession_no_destination_witness:
  "sendToSession (testEnv [js ''telegram:123'' \<mapsto> noDestinationEntry])
       (testParams (js ''telegram:123'') (js ''Hello''))
     = (Returned (Err (js ''No destination found for session: telegram:123'')), [])"
proof -
  let ?st = "[js ''telegram:123'' \<mapsto> noDestinationEntry]"
  let ?env = "testEnv ?st"
  let ?p = "testParams (js ''telegram:123'') (js ''Hello'')"
  have "configOf ?env ?p = Inr ()"
    by (simp add: configOf_def testParams_def)
  moreover have "storeOf ?env ?p () = Inr ?st"
    by (simp add: storeOf_def storePathOf_def testEnv_def)
  moreover have "?st (p_sessionKey ?p) = Some noDestinationEntry"
    by (simp add: testParams_def)
  moreover have "resolveOutboundChannel (isDeliverableMessageChannel ?env)
                   (lastChannel noDestinationEntry) = Inr (Some (js ''telegram''))"
    by (simp add: resolveOutboundChannel_def noDestinationEntry_def testEnv_def js_def)
  moreover have "lastTo noDestinationEntry = None \<or> lastTo noDestinationEntry = Some []"
    by (simp add: noDestinationEntry_def)
  ultimately have "sendToSession ?env ?p
      = (Returned (Err (js ''No destination found for session: '' @ p_sessionKey ?p)), [])"
    by (rule sendToSession_no_destination)
  then show ?thesis by (simp add: testParams_def js_def)
qed

section \<open>Properties of the reply utilities\<close>

subsection \<open>The socket-error pattern and trimming\<close>

lemma matchHere_iff:
  "matchHere pat s \<longleftrightarrow>
     (\<exists>mid post. s = mid @ post \<and> map canonicalize mid = map canonicalize pat)"
proof (induction pat s rule: matchHere.induct)
  case (1 s)
  then show ?case by simp
next
  case (2 p ps)
  then show ?case by simp
next
  case (3 p ps c cs)
  show ?case
  proof
    assume "matchHere (p # ps) (c # cs)"
    then have eq: "canonicalize c = canonicalize p" and "matchHere ps cs" by simp_all
    with 3 obtain mid post where "cs = mid @ post" "map canonicalize mid = map canonicalize ps"
      by blast
    with eq have "c # cs = (c # mid) @ post \<and> map canonicalize (c # mid) = map canonicalize (p # ps)"
      by simp
    then show "\<exists>mid post. c # cs = mid @ post \<and> map canonicalize mid = map canonicalize (p # ps)"
      by blast
  next
    assume "\<exists>mid post. c # cs = mid @ post \<and> map canonicalize mid = map canonicalize (p # ps)"
    then obtain mid post where m: "c # cs = mid @ post"
      "map canonicalize mid = map canonicalize (p # ps)" by blast
    from m(2) obtain m0 mid' where mid: "mid = m0 # mid'" by (cases mid) auto
    with m have "c = m0" "cs = mid' @ post" "canonicalize m0 = canonicalize p"
      "map canonicalize mid' = map canonicalize ps" by simp_all
    with 3 show "matchHere (p # ps) (c # cs)" by auto
  qed
qed

lemma regexTest_iff:
  "regexTest pat s \<longleftrightarrow>
     (\<exists>pre mid post. s = pre @ mid @ post \<and> map canonicalize mid = map canonicalize pat)"
proof (induction s)
  case Nil
  show ?case by (cases pat) auto
next
  case (Cons c cs)
  show ?case
  proof
    assume "regexTest pat (c # cs)"
    then consider "matchHere pat (c # cs)" | "regexTest pat cs" by auto
    then show "\<exists>pre mid post. c # cs = pre @ mid @ post \<and> map canonicalize mid = map canonicalize pat"
    proof cases
      case 1
      then obtain mid post where "c # cs = [] @ mid @ post" "map canonicalize mid = map canonicalize pat"
        unfolding matchHere_iff by auto
      then show ?thesis by blast
    next
      case 2
      with Cons obtain pre mid post where "cs = pre @ mid @ post"
        "map canonicalize mid = map canonicalize pat" by blast
      then have "c # cs = (c # pre) @ mid @ post \<and> map canonicalize mid = map canonicalize pat"
        by simp
      then show ?thesis by blast
    qed
  next
    assume "\<exists>pre mid post. c # cs = pre @ mid @ post \<and> map canonicalize mid = map canonicalize pat"
    then obtain pre mid post where d: "c # cs = pre @ mid @ post"
      "map canonicalize mid = map canonicalize pat" by blast
    show "regexTest pat (c # cs)"
    proof (cases pre)
      case Nil
      with d have "matchHere pat (c # cs)" unfolding matchHere_iff by auto
      then show ?thesis by simp
    next
      case (Cons a pre')
      with d have "cs = pre' @ mid @ post" by simp
      with d(2) Cons.IH have "regexTest pat cs" by blast
      then show ?thesis by simp
    qed
  qed
qed

lemma dropWhile_keeps: "x \<in> set xs \<Longrightarrow> \<not> P x \<Longrightarrow> x \<in> set (dropWhile P xs)"
  by (induction xs) auto

lemma trim_eq_Nil_iff: "trim s = [] \<longleftrightarrow> (\<forall>c \<in> set s. isWhiteSpace c)"
proof
  assume "trim s = []"
  then have all: "\<forall>c \<in> set (trimEnd s). isWhiteSpace c"
    by (simp add: trim_def)
  show "\<forall>c \<in> set s. isWhiteSpace c"
  proof (rule ccontr)
    assume "\<not> (\<forall>c \<in> set s. isWhiteSpace c)"
    then obtain c where "c \<in> set s" "\<not> isWhiteSpace c" by blast
    then have "c \<in> set (dropWhile isWhiteSpace (rev s))" by (simp add: dropWhile_keeps)
    then have "c \<in> set (trimEnd s)" by (simp add: trimEnd_def)
    with all \<open>\<not> isWhiteSpace c\<close> show False by blast
  qed
next
  assume "\<forall>c \<in> set s. isWhiteSpace c"
  then have "trimEnd s = []" by (simp add: trimEnd_def)
  then show "trim s = []" by (simp add: trim_def)
qed

lemma pattern_head:
  "BUN_FETCH_SOCKET_ERROR_RE = 0x73 # js ''ocket connection was closed unexpectedly''"
  by (simp add: BUN_FETCH_SOCKET_ERROR_RE_def js_def)

lemma canonicalize_s: "canonicalize c = canonicalize 0x73 \<Longrightarrow> \<not> isWhiteSpace c"
proof -
  assume "canonicalize c = canonicalize 0x73"
  then have "c = 0x73 \<or> c = 0x53"
    by (auto simp add: canonicalize_def diff_eq_eq split: if_splits)
  then show "\<not> isWhiteSpace c"
    by (auto simp add: isWhiteSpace_def)
qed

text \<open>
  C8. \<open>isBunFetchSocketError\<close> holds exactly for a non-empty message in which the
  pattern \<open>socket connection was closed unexpectedly\<close> occurs, letter case ignored. The
  text of \<open>formatBunFetchSocketError\<close> begins with the warning sign and
  \<open>LLM connection failed.\<close> and ends with a fenced block holding the trimmed message, or
  \<open>Unknown error\<close> when nothing is left after trimming; for a message with the pattern the
  trimmed message is never empty.
\<close>

theorem bun_fetch_socket_error:
  "(isBunFetchSocketError message \<longleftrightarrow>
      (\<exists>s. message = Some s \<and> s \<noteq> [] \<and>
         (\<exists>pre mid post. s = pre @ mid @ post \<and>
            map canonicalize mid = map canonicalize (js ''socket connection was closed unexpectedly''))))
   \<and> (isBunFetchSocketError (Some m) \<longrightarrow> trim m \<noteq> [])
   \<and> formatBunFetchSocketError m =
       [0x26A0, 0xFE0F] @ js '' LLM connection failed.''
       @ js '' This could be due to server issues, network problems, or context length exceeded (e.g., with local LLMs like LM Studio). Original error:''
       @ [0x0A] @ js ''```'' @ [0x0A]
       @ (if trim m = [] then js ''Unknown error'' else trim m)
       @ [0x0A] @ js ''```''"
proof (intro conjI impI)
  show "isBunFetchSocketError message \<longleftrightarrow>
      (\<exists>s. message = Some s \<and> s \<noteq> [] \<and>
         (\<exists>pre mid post. s = pre @ mid @ post \<and>
            map canonicalize mid = map canonicalize (js ''socket connection was closed unexpectedly'')))"
    by (cases message)
       (simp_all add: isBunFetchSocketError_def regexTest_iff BUN_FETCH_SOCKET_ERROR_RE_def)
next
  assume "isBunFetchSocketError (Some m)"
  then have "regexTest BUN_FETCH_SOCKET_ERROR_RE m"
    by (simp add: isBunFetchSocketError_def)
  then obtain pre mid post where d: "m = pre @ mid @ post"
    "map canonicalize mid = map canonicalize BUN_FETCH_SOCKET_ERROR_RE"
    unfolding regexTest_iff by blast
  from d(2) obtain c mid' where "mid = c # mid'" "canonicalize c = canonicalize 0x73"
    unfolding pattern_head by (cases mid) auto
  with d(1) have "c \<in> set m" "\<not> isWhiteSpace c"
    by (simp_all add: canonicalize_s)
  then show "trim m \<noteq> []"
    unfolding trim_eq_Nil_iff by blast
next
  show "formatBunFetchSocketError m =
       [0x26A0, 0xFE0F] @ js '' LLM connection failed.''
       @ js '' This could be due to server issues, network problems, or context length exceeded (e.g., with local LLMs like LM Studio). Original error:''
       @ [0x0A] @ js ''```'' @ [0x0A]
       @ (if trim m = [] then js ''Unknown error'' else trim m)
       @ [0x0A] @ js ''```''"
    by (simp add: formatBunFetchSocketError_def LLM_CONNECTION_FAILED_def Let_def)
qed

theorem bun_fetch_socket_error_witness:
  "isBunFetchSocketError (Some bunErrorMessage)
   \<and> formatBunFetchSocketError bunErrorMessage =
       [0x26A0, 0xFE0F] @ js '' LLM connection failed.''
       @ js '' This could be due to server issues, network problems, or context length exceeded (e.g., with local LLMs like LM Studio). Original error:''
       @ [0x0A] @ js ''```'' @ [0x0A]
       @ js ''Error: The Socket connection was closed unexpectedly.''
       @ [0x0A] @ js ''```''"
proof -
  note inst = bun_fetch_socket_error [of "Some bunErrorMessage" bunErrorMessage]
  have nonempty: "bunErrorMessage \<noteq> []"
    by (simp add: bunErrorMessage_def)
  have parts: "bunErrorMessage = js ''  Error: The '' @ js ''Socket connection was closed unexpectedly''
                  @ (js ''. '' @ [0x0A])"
    by (simp add: bunErrorMessage_def js_def)
  have same: "map canonicalize (js ''Socket connection was closed unexpectedly'')
          = map canonicalize (js ''socket connection was closed unexpectedly'')"
    by (simp add: js_def canonicalize_def)
  from nonempty parts same
  have "\<exists>s. Some bunErrorMessage = Some s \<and> s \<noteq> [] \<and>
         (\<exists>pre mid post. s = pre @ mid @ post \<and>
            map canonicalize mid = map canonicalize (js ''socket connection was closed unexpectedly''))"
    by blast
  with inst have is_err: "isBunFetchSocketError (Some bunErrorMessage)"
    by blast
  have tr: "trim bunErrorMessage = js ''Error: The Socket connection was closed unexpectedly.''"
    by (simp add: bunErrorMessage_def trim_def trimEnd_def isWhiteSpace_def js_def)
  from is_err tr inst show ?thesis by simp
qed

subsection \<open>Appending the usage line\<close>

lemma lastTextIndex_NoneI:
  "(\<forall>j<n. \<not> truthy (text_p (ps ! j))) \<Longrightarrow> lastTextIndex ps n = None"
  by (induction n) simp_all

lemma lastTextIndex_SomeI:
  "k < n \<Longrightarrow> truthy (text_p (ps ! k))
   \<Longrightarrow> (\<forall>j. k < j \<and> j < n \<longrightarrow> \<not> truthy (text_p (ps ! j)))
   \<Longrightarrow> lastTextIndex ps n = Some k"
proof (induction n)
  case 0
  then show ?case by simp
next
  case (Suc n)
  show ?case
  proof (cases "k = n")
    case True
    with Suc.prems show ?thesis by simp
  next
    case False
    with Suc.prems have "k < n" and "\<not> truthy (text_p (ps ! n))" by auto
    with Suc show ?thesis by simp
  qed
qed

lemma appendUsageLine_last_text:
  assumes "truthy (text_p p)" and "\<forall>q \<in> set post. \<not> truthy (text_p q)"
  shows "appendUsageLine (pre @ p # post) line
           = pre @ p\<lparr>text_p := Some (trimEnd (the (text_p p)) @ FOOTER_DELIMITER @ line)\<rparr> # post"
proof -
  let ?ps = "pre @ p # post"
  have "\<forall>j. length pre < j \<and> j < length ?ps \<longrightarrow> \<not> truthy (text_p (?ps ! j))"
  proof (intro allI impI)
    fix j assume j: "length pre < j \<and> j < length ?ps"
    then have "?ps ! j = post ! (j - length pre - 1)" and "j - length pre - 1 < length post"
      by (auto simp add: nth_append nth_Cons')
    with assms(2) show "\<not> truthy (text_p (?ps ! j))" by (metis nth_mem)
  qed
  with assms(1) have "lastTextIndex ?ps (length ?ps) = Some (length pre)"
    by (intro lastTextIndex_SomeI) simp_all
  moreover from assms(1) obtain t where "text_p p = Some t" by (cases "text_p p") auto
  ultimately show ?thesis
    by (simp add: appendUsageLine_def Let_def)
qed

lemma appendUsageLine_no_text:
  assumes "\<forall>q \<in> set ps. \<not> truthy (text_p q)"
  shows "appendUsageLine ps line = ps @ [\<lparr>text_p = Some line, mediaUrl = None, other = None\<rparr>]"
proof -
  from assms have "lastTextIndex ps (length ps) = None"
    by (intro lastTextIndex_NoneI) simp
  then show ?thesis by (simp add: appendUsageLine_def)
qed

text \<open>
  C7. If some payload has a non-empty text, \<open>appendUsageLine\<close> keeps the length and the
  order of the list and changes only the last such payload: its text becomes the original
  text without trailing whitespace (the source's \<open>trimmed = existingText.trimEnd()\<close>),
  then the delimiter of two newlines, two hyphens and a newline, then the line. If no
  payload has a non-empty text, the list is kept and a payload \<open>{ text: line }\<close> is added
  at the end.
\<close>

theorem appendUsageLine_frame:
  "((\<exists>q \<in> set ps. truthy (text_p q)) \<longrightarrow>
      length (appendUsageLine ps line) = length ps
      \<and> (\<exists>pre p post. ps = pre @ p # post \<and> truthy (text_p p)
            \<and> (\<forall>q \<in> set post. \<not> truthy (text_p q))
            \<and> appendUsageLine ps line
                = pre @ p\<lparr>text_p := Some (trimEnd (the (text_p p))
                                              @ [0x0A, 0x0A, 0x2D, 0x2D, 0x0A] @ line)\<rparr> # post))
   \<and> ((\<forall>q \<in> set ps. \<not> truthy (text_p q)) \<longrightarrow>
        appendUsageLine ps line
          = ps @ [\<lparr>text_p = Some line, mediaUrl = None, other = None\<rparr>])"
proof (intro conjI impI)
  assume "\<exists>q \<in> set ps. truthy (text_p q)"
  then obtain pre p post where d: "ps = pre @ p # post" "truthy (text_p p)"
    "\<forall>q \<in> set post. \<not> truthy (text_p q)"
    using split_list_last_prop [of ps "\<lambda>q. truthy (text_p q)"] by blast
  then have r: "appendUsageLine ps line
      = pre @ p\<lparr>text_p := Some (trimEnd (the (text_p p))
                                              @ [0x0A, 0x0A, 0x2D, 0x2D, 0x0A] @ line)\<rparr> # post"
    using appendUsageLine_last_text [of p post pre line] by (simp add: FOOTER_DELIMITER_def)
  with d show "length (appendUsageLine ps line) = length ps" by simp
  from d r show "\<exists>pre p post. ps = pre @ p # post \<and> truthy (text_p p)
            \<and> (\<forall>q \<in> set post. \<not> truthy (text_p q))
            \<and> appendUsageLine ps line
                = pre @ p\<lparr>text_p := Some (trimEnd (the (text_p p))
                                              @ [0x0A, 0x0A, 0x2D, 0x2D, 0x0A] @ line)\<rparr> # post"
    by blast
next
  assume "\<forall>q \<in> set ps. \<not> truthy (text_p q)"
  then show "appendUsageLine ps line
          = ps @ [\<lparr>text_p = Some line, mediaUrl = None, other = None\<rparr>]"
    by (rule appendUsageLine_no_text)
qed

theorem appendUsageLine_frame_witness:
  "length (appendUsageLine mixedPayloads (js ''Usage: 12 in / 3 out'')) = length mixedPayloads
   \<and> appendUsageLine mixedPayloads (js ''Usage: 12 in / 3 out'')
       = [textPayload (js ''first''),
          textPayload (js ''  ok'' @ [0x0A, 0x0A, 0x2D, 0x2D, 0x0A] @ js ''Usage: 12 in / 3 out''),
          mediaPayload (js ''https://example.com/a.png''), textPayload []]
   \<and> appendUsageLine [mediaPayload (js ''u'')] (js ''Usage: 12 in / 3 out'')
       = [mediaPayload (js ''u''), textPayload (js ''Usage: 12 in / 3 out'')]"
proof -
  have h1: "\<exists>q \<in> set mixedPayloads. truthy (text_p q)"
    by (simp add: mixedPayloads_def textPayload_def js_def)
  have h2: "\<forall>q \<in> set [mediaPayload (js ''u'')]. \<not> truthy (text_p q)"
    by (simp add: mediaPayload_def)
  have v: "appendUsageLine mixedPayloads (js ''Usage: 12 in / 3 out'')
       = [textPayload (js ''first''),
          textPayload (js ''  ok'' @ [0x0A, 0x0A, 0x2D, 0x2D, 0x0A] @ js ''Usage: 12 in / 3 out''),
          mediaPayload (js ''https://example.com/a.png''), textPayload []]"
    by code_simp
  from h1 h2 v
    appendUsageLine_frame [of mixedPayloads "js ''Usage: 12 in / 3 out''"]
    appendUsageLine_frame [of "[mediaPayload (js ''u'')]" "js ''Usage: 12 in / 3 out''"]
  show ?thesis by (simp add: textPayload_def)
qed

subsection \<open>The usage line\<close>

lemma costPortion_extends:
  "\<exists>ext. costPortion uf sc u cc parts = parts @ ext"
  by (simp add: costPortion_def Let_def)

lemma contextPortion_extends:
  "\<exists>ext. contextPortion uf sx used mx parts = parts @ ext"
  by (simp add: contextPortion_def Let_def)

lemma usage_line_of_parts:
  "parts = first # ext \<Longrightarrow>
   \<exists>rest. (if length parts = 0 then None
           else if length parts = 1 then Some (parts ! 0)
           else Some (parts ! 0 @ MIDDLE_DOT_SEP @ join MIDDLE_DOT_SEP (drop 1 parts)))
          = Some (first @ rest)"
  by (cases ext) auto

lemma formatResponseUsageLine_tokens:
  assumes "usage params = Some u" and "u_input u = Some n" and "u_output u = Some m"
    and "flags params = Some f" and "f_tokens f = Some True"
  shows "\<exists>rest. formatResponseUsageLine uf params
           = Some (js ''Usage: '' @ formatTokenCount uf n @ js '' in / ''
                   @ formatTokenCount uf m @ js '' out'' @ rest)"
proof -
  let ?line = "js ''Usage: '' @ formatTokenCount uf n @ js '' in / ''
                   @ formatTokenCount uf m @ js '' out''"
  let ?sc = "Boolean (f_cost f)" and ?sx = "Boolean (f_context f)"
  have t: "tokensPortion uf True u [] = [?line]"
    using assms by (simp add: tokensPortion_def)
  obtain e1 where c: "costPortion uf ?sc u (costConfig params) [?line] = [?line] @ e1"
    using costPortion_extends by blast
  obtain e2 where x: "contextPortion uf ?sx (contextUsedTokens params) (contextMaxTokens params)
                        ([?line] @ e1) = ([?line] @ e1) @ e2"
    using contextPortion_extends by blast
  let ?parts = "contextPortion uf ?sx (contextUsedTokens params) (contextMaxTokens params)
                  (costPortion uf ?sc u (costConfig params) (tokensPortion uf True u []))"
  from t c x have "?parts = ?line # (e1 @ e2)" by simp
  from usage_line_of_parts [OF this] obtain rest where
    "(if length ?parts = 0 then None
      else if length ?parts = 1 then Some (?parts ! 0)
      else Some (?parts ! 0 @ MIDDLE_DOT_SEP @ join MIDDLE_DOT_SEP (drop 1 ?parts)))
     = Some (?line @ rest)" by blast
  with assms have "formatResponseUsageLine uf params = Some (?line @ rest)"
    by (simp add: formatResponseUsageLine_def Let_def)
  then show ?thesis by auto
qed

lemma appendUsageLine_contains:
  "\<exists>p \<in> set (appendUsageLine ps line). \<exists>before. text_p p = Some (before @ line)"
proof (cases "\<exists>q \<in> set ps. truthy (text_p q)")
  case True
  then obtain pre p post where d: "ps = pre @ p # post" "truthy (text_p p)"
    "\<forall>q \<in> set post. \<not> truthy (text_p q)"
    using split_list_last_prop [of ps "\<lambda>q. truthy (text_p q)"] by blast
  let ?next = "p\<lparr>text_p := Some (trimEnd (the (text_p p)) @ FOOTER_DELIMITER @ line)\<rparr>"
  from d have "appendUsageLine ps line = pre @ ?next # post"
    using appendUsageLine_last_text [of p post pre line] by simp
  then have "?next \<in> set (appendUsageLine ps line)" by simp
  moreover have "text_p ?next = Some ((trimEnd (the (text_p p)) @ FOOTER_DELIMITER) @ line)"
    by simp
  ultimately show ?thesis by blast
next
  case False
  let ?new = "\<lparr>text_p = Some line, mediaUrl = None, other = None\<rparr> :: 'a ReplyPayload"
  from False have "appendUsageLine ps line = ps @ [?new]"
    using appendUsageLine_no_text [of ps line] by simp
  then have "?new \<in> set (appendUsageLine ps line)" by simp
  moreover have "text_p ?new = Some ([] @ line)" by simp
  ultimately show ?thesis by blast
qed

text \<open>
  C5. For a usage with a numeric input count and a numeric output count and flags with
  \<open>tokens = true\<close>, \<open>formatResponseUsageLine\<close> returns a line that starts with
  \<open>Usage: <formatted input> in / <formatted output> out\<close>; appended to any payload list
  by \<open>appendUsageLine\<close>, the line is in the text of a payload of the result.
\<close>

theorem formatResponseUsageLine_shows_tokens:
  assumes "usage params = Some u" and "u_input u = Some n" and "u_output u = Some m"
    and "flags params = Some f" and "f_tokens f = Some True"
  shows "\<exists>line rest. formatResponseUsageLine uf params = Some line
           \<and> line = js ''Usage: '' @ formatTokenCount uf n @ js '' in / ''
                      @ formatTokenCount uf m @ js '' out'' @ rest
           \<and> (\<forall>ps :: 'x ReplyPayload list.
                 \<exists>p \<in> set (appendUsageLine ps line). \<exists>before. text_p p = Some (before @ line))"
proof -
  from formatResponseUsageLine_tokens [OF assms] obtain rest where
    "formatResponseUsageLine uf params
       = Some (js ''Usage: '' @ formatTokenCount uf n @ js '' in / ''
               @ formatTokenCount uf m @ js '' out'' @ rest)" by blast
  then show ?thesis using appendUsageLine_contains by blast
qed

theorem formatResponseUsageLine_shows_tokens_witness:
  "\<exists>rest. formatResponseUsageLine stubUsageFormat (testLineParams (Some tokensOnly))
            = Some (js ''Usage: 12 in / 3 out'' @ rest)"
proof -
  have "usage (testLineParams (Some tokensOnly)) = Some testUsage"
    and "u_input testUsage = Some 12" and "u_output testUsage = Some 3"
    and "flags (testLineParams (Some tokensOnly)) = Some tokensOnly"
    and "f_tokens tokensOnly = Some True"
    by (simp_all add: testLineParams_def testUsage_def tokensOnly_def)
  from formatResponseUsageLine_shows_tokens [OF this, of stubUsageFormat]
  show ?thesis
    by (auto simp add: stubUsageFormat_def twoDigits_def js_def)
qed

text \<open>
  C6. With a flags object in which \<open>tokens\<close>, \<open>cost\<close> and \<open>context\<close> are each absent or
  false, \<open>formatResponseUsageLine\<close> returns \<open>null\<close> for every usage. In the usage step of
  the runner, session flags of that kind leave the payloads unchanged whatever the channel
  and global defaults are.
\<close>

theorem formatResponseUsageLine_no_flags:
  assumes "flags params = Some f"
    and "f_tokens f = None \<or> f_tokens f = Some False"
    and "f_cost f = None \<or> f_cost f = Some False"
    and "f_context f = None \<or> f_context f = Some False"
  shows "formatResponseUsageLine uf params = None
       \<and> annotateUsage uf (Some f) channelDefault globalDefault params ps = ps"
proof
  from assms show "formatResponseUsageLine uf params = None"
    by (auto simp add: formatResponseUsageLine_def split: option.split)
  from assms(2-4) have "\<not> hasAnyUsageFlag (Some f)"
    by (auto simp add: hasAnyUsageFlag_def)
  then show "annotateUsage uf (Some f) channelDefault globalDefault params ps = ps"
    by (simp add: annotateUsage_def resolveResponseUsageFlags_def)
qed

theorem formatResponseUsageLine_no_flags_witness:
  "formatResponseUsageLine stubUsageFormat (testLineParams (Some noFlags)) = None
   \<and> annotateUsage stubUsageFormat (Some noFlags) None (Some tokensOnly)
        (testLineParams (Some noFlags)) [textPayload (js ''ok'')] = [textPayload (js ''ok'')]
   \<and> annotateUsage stubUsageFormat None None (Some tokensOnly)
        (testLineParams None) [textPayload (js ''ok'')]
        = [textPayload (js ''ok'' @ [0x0A, 0x0A, 0x2D, 0x2D, 0x0A] @ js ''Usage: 12 in / 3 out'')]"
proof -
  have "flags (testLineParams (Some noFlags)) = Some noFlags"
    and "f_tokens noFlags = None \<or> f_tokens noFlags = Some False"
    and "f_cost noFlags = None \<or> f_cost noFlags = Some False"
    and "f_context noFlags = None \<or> f_context noFlags = Some False"
    by (simp_all add: testLineParams_def noFlags_def)
  then have "formatResponseUsageLine stubUsageFormat (testLineParams (Some noFlags)) = None
       \<and> annotateUsage stubUsageFormat (Some noFlags) None (Some tokensOnly)
            (testLineParams (Some noFlags)) [textPayload (js ''ok'')] = [textPayload (js ''ok'')]"
    by (rule formatResponseUsageLine_no_flags)
  moreover have "annotateUsage stubUsageFormat None None (Some tokensOnly)
        (testLineParams None) [textPayload (js ''ok'')]
        = [textPayload (js ''ok'' @ [0x0A, 0x0A, 0x2D, 0x2D, 0x0A] @ js ''Usage: 12 in / 3 out'')]"
    by code_simp
  ultimately show ?thesis by blast
qed

end
